theory Spec2Isabelle
  imports Complex_Main "HOL-Library.Log_Nat"
begin

section \<open>Data model of \<open>main.py\<close>\<close>

text \<open>
  Python objects are compared by identity (none of the classes defines \<open>__eq__\<close>), and
  developers and projects point at each other, so objects live in a store and lists hold
  references. Every reference denotes an object; the constructors hand out fresh ones.
  Text written by \<open>print\<close> is collected line by line in \<open>stdout\<close>.
\<close>

type_synonym dev_ref = nat
type_synonym proj_ref = nat
type_synonym asg_ref = nat
type_synonym pm_ref = nat

text \<open>
  A task record is a dictionary of which the code reads the entry \<open>"is_done"\<close> only;
  it is modelled as a record with that flag and a free-form rest.
\<close>

record task =
  task_is_done :: bool
  task_info :: string

record developer =
  dev_id :: nat
  full_name :: string
  address :: string
  email :: string
  phone_number :: string
  position :: string
  salary :: string
  projects :: "proj_ref list"
  assignments :: "asg_ref list"

text \<open>\<open>received_tasks\<close> is a dictionary in insertion order: its items, keys distinct.\<close>

record assignment =
  description :: string
  received_tasks :: "(string \<times> task) list"
  status :: string
  is_done :: bool

record project =
  title :: string
  start_date :: string
  tasks_list :: "task list"
  developers :: "dev_ref list"
  limit :: int

record project_manager =
  pm_id :: nat
  pm_full_name :: string
  pm_address :: string
  pm_email :: string
  pm_phone_number :: string
  pm_position :: string
  pm_salary :: string
  pm_project :: proj_ref

record heap =
  devs :: "dev_ref \<Rightarrow> developer"
  projs :: "proj_ref \<Rightarrow> project"
  asgs :: "asg_ref \<Rightarrow> assignment"
  pms :: "pm_ref \<Rightarrow> project_manager"
  dev_count :: nat
  proj_count :: nat
  asg_count :: nat
  pm_count :: nat
  developer_id_iter :: nat
  project_manager_id_iter :: nat
  stdout :: "string list"

text \<open>
  Every exception the code can raise is a \<open>ValueError\<close>; the argument says where it
  comes from: the \<open>raise\<close> in \<open>Developer.assign\<close> (with the project's title, which the
  message quotes), \<open>list.remove\<close> of an absent element, and \<open>datetime.strptime\<close>.
  True division of integers can raise the other two.
\<close>

datatype value_error = Project_Already_Exists string | Remove_Not_In_List | Time_Data_Mismatch

datatype error = ValueError value_error | ZeroDivisionError | OverflowError

type_synonym 'a result = "(error + 'a) \<times> heap"

definition print :: "string \<Rightarrow> heap \<Rightarrow> heap" where
  "print line h = h\<lparr>stdout := stdout h @ [line]\<rparr>"

definition set_projects :: "dev_ref \<Rightarrow> proj_ref list \<Rightarrow> heap \<Rightarrow> heap" where
  "set_projects d ps h = h\<lparr>devs := (devs h)(d := (devs h d)\<lparr>projects := ps\<rparr>)\<rparr>"

definition set_developers :: "proj_ref \<Rightarrow> dev_ref list \<Rightarrow> heap \<Rightarrow> heap" where
  "set_developers p ds h = h\<lparr>projs := (projs h)(p := (projs h p)\<lparr>developers := ds\<rparr>)\<rparr>"

section \<open>Constructors\<close>

definition blank_developer :: developer where
  "blank_developer = \<lparr>dev_id = 0, full_name = [], address = [], email = [],
     phone_number = [], position = [], salary = [], projects = [], assignments = []\<rparr>"

definition blank_project :: project where
  "blank_project = \<lparr>title = [], start_date = [], tasks_list = [], developers = [], limit = 0\<rparr>"

definition blank_assignment :: assignment where
  "blank_assignment = \<lparr>description = [], received_tasks = [], status = [], is_done = False\<rparr>"

definition blank_project_manager :: project_manager where
  "blank_project_manager = \<lparr>pm_id = 0, pm_full_name = [], pm_address = [], pm_email = [],
     pm_phone_number = [], pm_position = [], pm_salary = [], pm_project = 0\<rparr>"

text \<open>The store of a process that has created no object yet.\<close>

definition empty_heap :: heap where
  "empty_heap = \<lparr>devs = (\<lambda>_. blank_developer), projs = (\<lambda>_. blank_project),
     asgs = (\<lambda>_. blank_assignment), pms = (\<lambda>_. blank_project_manager),
     dev_count = 0, proj_count = 0, asg_count = 0, pm_count = 0,
     developer_id_iter = 0, project_manager_id_iter = 0, stdout = []\<rparr>"

definition Developer_init ::
  "string \<Rightarrow> string \<Rightarrow> string \<Rightarrow> string \<Rightarrow> string \<Rightarrow> string \<Rightarrow> heap \<Rightarrow> dev_ref \<times> heap" where
  "Developer_init fn ad em ph po sa h =
     (let self = dev_count h;
          obj = \<lparr>dev_id = developer_id_iter h, full_name = fn, address = ad, email = em,
                 phone_number = ph, position = po, salary = sa, projects = [],
                 assignments = []\<rparr>
      in (self, h\<lparr>devs := (devs h)(self := obj), dev_count := Suc (dev_count h),
                  developer_id_iter := Suc (developer_id_iter h)\<rparr>))"

text \<open>\<open>Assignment.__init__\<close>: no task, the empty string as status, not done.\<close>

definition Assignment_init :: "string \<Rightarrow> assignment" where
  "Assignment_init desc = \<lparr>description = desc, received_tasks = [], status = [], is_done = False\<rparr>"

definition new_assignment :: "string \<Rightarrow> heap \<Rightarrow> asg_ref \<times> heap" where
  "new_assignment desc h =
     (let self = asg_count h
      in (self, h\<lparr>asgs := (asgs h)(self := Assignment_init desc), asg_count := Suc (asg_count h)\<rparr>))"

text \<open>\<open>Project.__init__\<close>; \<open>today\<close> is what \<open>datetime.now().strftime("%m/%d/%Y")\<close> returns.\<close>

definition Project_init :: "string \<Rightarrow> int \<Rightarrow> string \<Rightarrow> heap \<Rightarrow> proj_ref \<times> heap" where
  "Project_init ti li today h =
     (let self = proj_count h;
          obj = \<lparr>title = ti, start_date = today, tasks_list = [], developers = [], limit = li\<rparr>
      in (self, h\<lparr>projs := (projs h)(self := obj), proj_count := Suc (proj_count h)\<rparr>))"

definition ProjectManager_init ::
  "string \<Rightarrow> string \<Rightarrow> string \<Rightarrow> string \<Rightarrow> string \<Rightarrow> string \<Rightarrow> proj_ref \<Rightarrow> heap \<Rightarrow> pm_ref \<times> heap" where
  "ProjectManager_init fn ad em ph po sa pr h =
     (let self = pm_count h;
          obj = \<lparr>pm_id = project_manager_id_iter h, pm_full_name = fn, pm_address = ad,
                 pm_email = em, pm_phone_number = ph, pm_position = po, pm_salary = sa,
                 pm_project = pr\<rparr>
      in (self, h\<lparr>pms := (pms h)(self := obj), pm_count := Suc (pm_count h),
                  project_manager_id_iter := Suc (project_manager_id_iter h)\<rparr>))"

section \<open>Developer\<close>

definition get_assigned_projects :: "dev_ref \<Rightarrow> heap \<Rightarrow> string list" where
  "get_assigned_projects self h = map (\<lambda>project. title (projs h project)) (projects (devs h self))"

definition assign :: "dev_ref \<Rightarrow> proj_ref \<Rightarrow> heap \<Rightarrow> unit result" where
  "assign self project h =
     (if project \<in> set (projects (devs h self))
      then (Inl (ValueError (Project_Already_Exists (title (projs h project)))), h)
      else (Inr (),
            print (''Project '' @ title (projs h project) @ '' has been added to developer ''
                     @ full_name (devs h self))
              (set_projects self (projects (devs h self) @ [project]) h)))"

definition cancel_appointment :: "dev_ref \<Rightarrow> proj_ref \<Rightarrow> heap \<Rightarrow> unit result" where
  "cancel_appointment self project h =
     (if project \<in> set (projects (devs h self))
      then (Inr (),
            print (''Project '' @ title (projs h project) @ '' has been removed from developer ''
                     @ full_name (devs h self))
              (set_projects self (remove1 project (projects (devs h self))) h))
      else (Inr (), h))"

section \<open>Project\<close>

text \<open>
  \<open>add_developer\<close> catches the \<open>ValueError\<close> of \<open>assign\<close>, prints, and goes on to the
  \<open>append\<close>, which is outside the \<open>try\<close>. Any other exception would pass through.
\<close>

definition add_developer :: "proj_ref \<Rightarrow> dev_ref \<Rightarrow> heap \<Rightarrow> unit result" where
  "add_developer self developer h =
     (case assign developer self h of
        (Inl (ValueError _), h1) \<Rightarrow>
          (let h2 = print (''Developer '' @ full_name (devs h1 developer) @ '' exists'') h1
           in (Inr (), set_developers self (developers (projs h2 self) @ [developer]) h2))
      | (Inl e, h1) \<Rightarrow> (Inl e, h1)
      | (Inr _, h1) \<Rightarrow>
          (Inr (), set_developers self (developers (projs h1 self) @ [developer]) h1))"

text \<open>\<open>list.remove\<close> deletes the first occurrence and raises \<open>ValueError\<close> when there is none.\<close>

definition remove_developer :: "proj_ref \<Rightarrow> dev_ref \<Rightarrow> heap \<Rightarrow> unit result" where
  "remove_developer self developer h =
     (case cancel_appointment developer self h of
        (Inl e, h1) \<Rightarrow> (Inl e, h1)
      | (Inr _, h1) \<Rightarrow>
          (if developer \<in> set (developers (projs h1 self))
           then (Inr (), set_developers self (remove1 developer (developers (projs h1 self))) h1)
           else (Inl (ValueError Remove_Not_In_List), h1)))"

section \<open>What the code uses of Python\<close>

subsection \<open>\<open>str.join\<close> and \<open>str\<close> of a natural number\<close>

fun join :: "string \<Rightarrow> string list \<Rightarrow> string" where
  "join sep [] = []"
| "join sep [x] = x"
| "join sep (x # y # ys) = x @ sep @ join sep (y # ys)"

fun digits :: "nat \<Rightarrow> string" where
  "digits n =
     (if n < 10 then [''0123456789'' ! n]
      else digits (n div 10) @ [''0123456789'' ! (n mod 10)])"

declare digits.simps [simp del]

subsection \<open>Floats\<close>

text \<open>
  A Python float is an IEEE 754 binary64 number. Only finite floats that are not negative
  arise here: \<open>PyFloat m p\<close> is \<open>m * 2 ^ p\<close>, with \<open>2 ^ 52 \<le> m < 2 ^ 53\<close> and
  \<open>- 1074 \<le> p \<le> 971\<close> for a normal number and \<open>m < 2 ^ 52\<close>, \<open>p = - 1074\<close> below.
\<close>

datatype pyfloat = PyFloat (mant: int) (expo: int)

definition float_value :: "pyfloat \<Rightarrow> rat" where
  "float_value x = of_int (mant x) * power_int 2 (expo x)"

text \<open>The integer part of the logarithm of a positive rational, to the bases 2 and 10.\<close>

definition floor_log2 :: "rat \<Rightarrow> int" where
  "floor_log2 q = (if 1 \<le> q then bitlen \<lfloor>q\<rfloor> - 1 else - bitlen (\<lceil>1 / q\<rceil> - 1))"

definition floor_log10 :: "rat \<Rightarrow> int" where
  "floor_log10 q =
     (if 1 \<le> q then int (length (digits (nat \<lfloor>q\<rfloor>))) - 1
      else - int (length (digits (nat (\<lceil>1 / q\<rceil> - 1)))))"

text \<open>Rounding to the nearest float, ties to the even mantissa.\<close>

definition round_half_even :: "rat \<Rightarrow> int" where
  "round_half_even x =
     (if x - of_int \<lfloor>x\<rfloor> < 1 / 2 then \<lfloor>x\<rfloor>
      else if 1 / 2 < x - of_int \<lfloor>x\<rfloor> then \<lfloor>x\<rfloor> + 1
      else if even \<lfloor>x\<rfloor> then \<lfloor>x\<rfloor> else \<lfloor>x\<rfloor> + 1)"

definition normalise :: "int \<Rightarrow> int \<Rightarrow> pyfloat" where
  "normalise m p = (if m = 2 ^ 53 then PyFloat (2 ^ 52) (p + 1) else PyFloat m p)"

definition round_at :: "rat \<Rightarrow> int \<Rightarrow> pyfloat" where
  "round_at q p = normalise (round_half_even (q / power_int 2 p)) p"

definition round_binary64 :: "rat \<Rightarrow> pyfloat" where
  "round_binary64 q =
     (if q \<le> 0 then PyFloat 0 (- 1074)
      else round_at q (max (floor_log2 q - 52) (- 1074)))"

definition checked :: "pyfloat \<Rightarrow> error + pyfloat" where
  "checked x = (if 971 < expo x then Inl OverflowError else Inr x)"

text \<open>
  \<open>a / b\<close> on two integers that are not negative: the float nearest to the exact
  quotient, \<open>ZeroDivisionError\<close> for \<open>b = 0\<close>, \<open>OverflowError\<close> beyond the largest float.
\<close>

definition int_true_div :: "nat \<Rightarrow> nat \<Rightarrow> error + pyfloat" where
  "int_true_div a b =
     (if b = 0 then Inl ZeroDivisionError
      else checked (round_binary64 (of_nat a / of_nat b)))"

text \<open>The product of two floats (of the size that arises here: no overflow).\<close>

definition float_mul :: "pyfloat \<Rightarrow> pyfloat \<Rightarrow> pyfloat" where
  "float_mul x y = round_binary64 (float_value x * float_value y)"

text \<open>
  \<open>str\<close> of a float is its \<open>repr\<close>: the shortest decimal numeral that reads back as the
  same float and, among those, the one nearest to it. \<open>reads_back x c\<close> says that the
  rational \<open>c\<close> rounds to \<open>x\<close>.
\<close>

definition reads_back :: "pyfloat \<Rightarrow> rat \<Rightarrow> bool" where
  "reads_back x c =
     (if even (mant x)
      then float_value x
             - (if mant x = 2 ^ 52 \<and> - 1074 < expo x then power_int 2 (expo x - 2)
                else power_int 2 (expo x - 1)) \<le> c
           \<and> c \<le> float_value x + power_int 2 (expo x - 1)
      else float_value x
             - (if mant x = 2 ^ 52 \<and> - 1074 < expo x then power_int 2 (expo x - 2)
                else power_int 2 (expo x - 1)) < c
           \<and> c < float_value x + power_int 2 (expo x - 1))"

definition nearer_below :: "rat \<Rightarrow> rat \<Rightarrow> int \<Rightarrow> bool" where
  "nearer_below v s c =
     (v - of_int c * s < of_int (c + 1) * s - v
      \<or> (v - of_int c * s = of_int (c + 1) * s - v \<and> even c))"

definition pick :: "pyfloat \<Rightarrow> rat \<Rightarrow> int \<Rightarrow> rat \<Rightarrow> int \<Rightarrow> (int \<times> int) option" where
  "pick x v k s c =
     (if reads_back x (of_int c * s)
         \<and> (nearer_below v s c \<or> \<not> reads_back x (of_int (c + 1) * s))
      then Some (c, k)
      else if reads_back x (of_int (c + 1) * s) then Some (c + 1, k)
      else None)"

definition scaled :: "pyfloat \<Rightarrow> rat \<Rightarrow> int \<Rightarrow> rat \<Rightarrow> (int \<times> int) option" where
  "scaled x v k s = pick x v k s \<lfloor>v / s\<rfloor>"

definition candidate :: "pyfloat \<Rightarrow> rat \<Rightarrow> int \<Rightarrow> (int \<times> int) option" where
  "candidate x v k = scaled x v k (power_int 10 k)"

definition nearest :: "rat \<Rightarrow> int \<Rightarrow> rat \<Rightarrow> int \<times> int" where
  "nearest v k s =
     (if nearer_below v s \<lfloor>v / s\<rfloor> then (\<lfloor>v / s\<rfloor>, k) else (\<lfloor>v / s\<rfloor> + 1, k))"

text \<open>
  \<open>shortest_digits n x\<close> tries \<open>n\<close>, \<open>n + 1\<close>, ... significant digits; seventeen always
  suffice. The result \<open>(c, k)\<close> stands for \<open>c * 10 ^ k\<close>.
\<close>

function shortest_digits :: "int \<Rightarrow> pyfloat \<Rightarrow> int \<times> int" where
  "shortest_digits n x =
     (if 17 \<le> n
      then nearest (float_value x) (floor_log10 (float_value x) - n + 1)
             (power_int 10 (floor_log10 (float_value x) - n + 1))
      else case candidate x (float_value x) (floor_log10 (float_value x) - n + 1) of
             Some r \<Rightarrow> r
           | None \<Rightarrow> shortest_digits (n + 1) x)"
  by pat_completeness auto
termination
  by (relation "measure (\<lambda>(n, x). nat (17 - n))") auto

declare shortest_digits.simps [simp del]

fun strip_zeros :: "nat \<Rightarrow> int \<times> int \<Rightarrow> int \<times> int" where
  "strip_zeros 0 (c, k) = (c, k)"
| "strip_zeros (Suc fuel) (c, k) =
     (if c \<noteq> 0 \<and> c mod 10 = 0 then strip_zeros fuel (c div 10, k + 1) else (c, k))"

text \<open>
  The digits \<open>ds\<close> with the decimal point after the first \<open>decpt\<close> of them: as a plain
  decimal with at least one digit after the point, or with an exponent of at least two
  digits when \<open>decpt\<close> is below \<open>- 3\<close> or above \<open>16\<close>.
\<close>

definition place :: "string \<Rightarrow> int \<Rightarrow> string" where
  "place ds decpt =
     (if decpt \<le> - 4 \<or> 16 < decpt
      then hd ds # (if 1 < length ds then CHR ''.'' # tl ds else [])
           @ ''e'' @ (if decpt - 1 < 0 then ''-'' else ''+'')
           @ (if \<bar>decpt - 1\<bar> < 10 then ''0'' else []) @ digits (nat \<bar>decpt - 1\<bar>)
      else if decpt \<le> 0 then ''0.'' @ replicate (nat (- decpt)) CHR ''0'' @ ds
      else if int (length ds) \<le> decpt
        then ds @ replicate (nat (decpt - int (length ds))) CHR ''0'' @ ''.0''
      else take (nat decpt) ds @ ''.'' @ drop (nat decpt) ds)"

definition layout :: "string \<Rightarrow> int \<Rightarrow> string" where
  "layout ds k = place ds (int (length ds) + k)"

fun render :: "int \<times> int \<Rightarrow> string" where
  "render (c, k) = layout (digits (nat c)) k"

definition float_repr :: "pyfloat \<Rightarrow> string" where
  "float_repr x =
     (if mant x = 0 then ''0.0'' else render (strip_zeros 17 (shortest_digits 1 x)))"

subsection \<open>\<open>datetime.strptime\<close> with the format \<open>"%m/%d/%Y"\<close>\<close>

text \<open>
  The month is \<open>1[0-2]|0[1-9]|[1-9]\<close>, the day \<open>3[0-1]|[1-2]\d|0[1-9]|[1-9]| [1-9]\<close>, the
  year four digits, with a slash between them and nothing before or after; the three
  numbers must then be a date of the calendar, the year at least 1. Everything else is a
  \<open>ValueError\<close>. No field can hold a slash, so the text splits at its slashes.
  Strings are ASCII.
\<close>

record datetime =
  year :: nat
  month :: nat
  day :: nat

fun split_on :: "char \<Rightarrow> string \<Rightarrow> string list" where
  "split_on sep [] = [[]]"
| "split_on sep (c # cs) =
     (if c = sep then [] # split_on sep cs
      else (case split_on sep cs of
              [] \<Rightarrow> [[c]]
            | part # parts \<Rightarrow> (c # part) # parts))"

definition is_digit :: "char \<Rightarrow> bool" where
  "is_digit c = (c \<in> set ''0123456789'')"

text \<open>The value of a digit is its place in \<open>0123456789\<close>.\<close>

definition digit_value :: "char \<Rightarrow> nat" where
  "digit_value c = length (takeWhile (\<lambda>d. d \<noteq> c) ''0123456789'')"

fun month_of :: "string \<Rightarrow> nat option" where
  "month_of [a, b] =
     (if a = CHR ''1'' \<and> b \<in> set ''012'' then Some (10 + digit_value b)
      else if a = CHR ''0'' \<and> b \<in> set ''123456789'' then Some (digit_value b)
      else None)"
| "month_of [a] = (if a \<in> set ''123456789'' then Some (digit_value a) else None)"
| "month_of _ = None"

fun day_of :: "string \<Rightarrow> nat option" where
  "day_of [a, b] =
     (if a = CHR ''3'' \<and> b \<in> set ''01'' then Some (30 + digit_value b)
      else if a \<in> set ''12'' \<and> is_digit b then Some (10 * digit_value a + digit_value b)
      else if a = CHR ''0'' \<and> b \<in> set ''123456789'' then Some (digit_value b)
      else if a = CHR '' '' \<and> b \<in> set ''123456789'' then Some (digit_value b)
      else None)"
| "day_of [a] = (if a \<in> set ''123456789'' then Some (digit_value a) else None)"
| "day_of _ = None"

fun year_of :: "string \<Rightarrow> nat option" where
  "year_of [a, b, c, d] =
     (if is_digit a \<and> is_digit b \<and> is_digit c \<and> is_digit d
      then Some (1000 * digit_value a + 100 * digit_value b + 10 * digit_value c
                 + digit_value d)
      else None)"
| "year_of _ = None"

definition is_leap :: "nat \<Rightarrow> bool" where
  "is_leap y = (y mod 4 = 0 \<and> (y mod 100 \<noteq> 0 \<or> y mod 400 = 0))"

definition days_in_month :: "nat \<Rightarrow> nat \<Rightarrow> nat" where
  "days_in_month y m =
     (if m = 2 then (if is_leap y then 29 else 28)
      else if m \<in> set [4, 6, 9, 11] then 30 else 31)"

definition make_datetime :: "nat option \<Rightarrow> nat option \<Rightarrow> nat option \<Rightarrow> error + datetime" where
  "make_datetime mo da ye =
     (case (mo, da, ye) of
        (Some m, Some d, Some y) \<Rightarrow>
          if 1 \<le> y \<and> d \<le> days_in_month y m
          then Inr \<lparr>year = y, month = m, day = d\<rparr>
          else Inl (ValueError Time_Data_Mismatch)
      | _ \<Rightarrow> Inl (ValueError Time_Data_Mismatch))"

definition strptime :: "string \<Rightarrow> error + datetime" where
  "strptime s =
     (case split_on CHR ''/'' s of
        [ms, ds, ys] \<Rightarrow> make_datetime (month_of ms) (day_of ds) (year_of ys)
      | _ \<Rightarrow> Inl (ValueError Time_Data_Mismatch))"

text \<open>\<open><\<close> on two datetimes at midnight.\<close>

definition date_less :: "datetime \<Rightarrow> datetime \<Rightarrow> bool" where
  "date_less a b =
     (year a < year b
      \<or> (year a = year b \<and> (month a < month b \<or> (month a = month b \<and> day a < day b))))"

section \<open>Assignment\<close>

text \<open>
  The methods of an Assignment read and write their own object only; they are given on
  the object. The comprehension of \<open>get_tasks_to_date\<close> parses the keys in the order of
  the items, so the first key that does not parse raises.
\<close>

fun tasks_before :: "(string \<times> task) list \<Rightarrow> datetime \<Rightarrow> error + task list" where
  "tasks_before [] date_to_compare = Inr []"
| "tasks_before ((k, v) # items) date_to_compare =
     (case strptime k of
        Inl e \<Rightarrow> Inl e
      | Inr kd \<Rightarrow>
          (case tasks_before items date_to_compare of
             Inl e \<Rightarrow> Inl e
           | Inr vs \<Rightarrow> Inr (if date_less kd date_to_compare then v # vs else vs)))"

definition get_tasks_to_date :: "assignment \<Rightarrow> string \<Rightarrow> error + task list" where
  "get_tasks_to_date self date =
     (case strptime date of
        Inl e \<Rightarrow> Inl e
      | Inr date_to_compare \<Rightarrow> tasks_before (received_tasks self) date_to_compare)"

definition calculate_status :: "assignment \<Rightarrow> error + assignment" where
  "calculate_status self =
     (let tasks = filter task_is_done (map snd (received_tasks self))
      in if tasks \<noteq> []
         then (case int_true_div (100 * length tasks) (length (received_tasks self)) of
                 Inl e \<Rightarrow> Inl e
               | Inr x \<Rightarrow> Inr (self\<lparr>status := float_repr x @ ''%''\<rparr>))
         else Inr (self\<lparr>status := ''0%''\<rparr>))"

section \<open>ProjectManager\<close>


section \<open>Readings of the specification\<close>

text \<open>
  The status as the specification words it: the number of completed tasks divided by the
  number of tasks, as floats, and the quotient times the float 100.
\<close>

definition done_tasks :: "assignment \<Rightarrow> task list" where
  "done_tasks self = filter task_is_done (map snd (received_tasks self))"

definition hundred :: pyfloat where
  "hundred = PyFloat 7036874417766400 (- 46)"

definition quotient_times_100 :: "assignment \<Rightarrow> string" where
  "quotient_times_100 self =
     (if received_tasks self = [] \<or> done_tasks self = [] then ''0%''
      else case int_true_div (length (done_tasks self)) (length (received_tasks self)) of
             Inl e \<Rightarrow> []
           | Inr x \<Rightarrow> float_repr (float_mul x hundred) @ ''%'')"

definition is_percentage :: "string \<Rightarrow> bool" where
  "is_percentage s = (s \<noteq> [] \<and> last s = CHR ''%'')"

definition status_of :: "error + assignment \<Rightarrow> error + string" where
  "status_of r = map_sum id status r"

section \<open>Scenarios\<close>

definition alice :: heap where
  "alice = snd (Developer_init ''Alice'' ''1 Main St'' ''alice@example.com'' ''555-0100''
                  ''Junior'' ''1000'' empty_heap)"

text \<open>Alice is developer 0; the project \<open>Website\<close> with limit 2 is project 0.\<close>

definition alice_website :: heap where
  "alice_website = snd (Project_init ''Website'' 2 ''11/04/2026'' alice)"

text \<open>A second project of the same title is project 1; Alice is assigned to project 0.\<close>

definition two_websites :: heap where
  "two_websites =
     snd (assign 0 0 (snd (Project_init ''Website'' 5 ''11/05/2026'' alice_website)))"

definition task_done :: task where
  "task_done = \<lparr>task_is_done = True, task_info = ''done''\<rparr>"

definition task_open :: task where
  "task_open = \<lparr>task_is_done = False, task_info = ''open''\<rparr>"


definition one_of_three :: assignment where
  "one_of_three = (Assignment_init ''Fix bug'')
     \<lparr>received_tasks := [(''09/01/2022'', task_done), (''10/01/2022'', task_open),
                          (''11/01/2022'', task_open)]\<rparr>"

definition two_of_two :: assignment where
  "two_of_two = (Assignment_init ''Write docs'')
     \<lparr>received_tasks := [(''09/01/2022'', task_done), (''10/01/2022'', task_done)]\<rparr>"

text \<open>
  A manager of project 0 and Alice with the two assignments \<open>Fix bug\<close> and
  \<open>Write docs\<close>, appended to her list in this order.
\<close>

definition managed :: heap where
  "managed =
     (let h1 = snd (ProjectManager_init ''Bob'' ''2 Main St'' ''bob@example.com'' ''555-0101''
                      ''Manager'' ''2000'' 0 alice_website);
          (a1, h2) = new_assignment ''Fix bug'' h1;
          (a2, h3) = new_assignment ''Write docs'' h2
      in h3\<lparr>devs := (devs h3)(0 := (devs h3 0)\<lparr>assignments := [a1, a2]\<rparr>)\<rparr>)"

section \<open>Stores\<close>

lemma devs_print [simp]: "devs (print l h) = devs h"
  by (simp add: print_def)

lemma projs_print [simp]: "projs (print l h) = projs h"
  by (simp add: print_def)

lemma stdout_print [simp]: "stdout (print l h) = stdout h @ [l]"
  by (simp add: print_def)

lemma devs_set_projects [simp]:
  "devs (set_projects d ps h) = (devs h)(d := (devs h d)\<lparr>projects := ps\<rparr>)"
  by (simp add: set_projects_def)

lemma projs_set_projects [simp]: "projs (set_projects d ps h) = projs h"
  by (simp add: set_projects_def)

lemma stdout_set_projects [simp]: "stdout (set_projects d ps h) = stdout h"
  by (simp add: set_projects_def)

lemma devs_set_developers [simp]: "devs (set_developers p ds h) = devs h"
  by (simp add: set_developers_def)

lemma projs_set_developers [simp]:
  "projs (set_developers p ds h) = (projs h)(p := (projs h p)\<lparr>developers := ds\<rparr>)"
  by (simp add: set_developers_def)

lemma assign_fresh:
  "p \<notin> set (projects (devs h d)) \<Longrightarrow>
   assign d p h = (Inr (), print (''Project '' @ title (projs h p) @ '' has been added to developer ''
                     @ full_name (devs h d)) (set_projects d (projects (devs h d) @ [p]) h))"
  by (simp add: assign_def)

lemma assign_present:
  "p \<in> set (projects (devs h d)) \<Longrightarrow>
   assign d p h = (Inl (ValueError (Project_Already_Exists (title (projs h p)))), h)"
  by (simp add: assign_def)

lemma assign_Inr_iff:
  "fst (assign d p h) = Inr () \<longleftrightarrow> p \<notin> set (projects (devs h d))"
  by (simp add: assign_def)

lemma assign_projects:
  assumes "assign d p h = (Inr (), h1)"
  shows "projects (devs h1 d) = projects (devs h d) @ [p]" and "p \<notin> set (projects (devs h d))"
    and "projs h1 = projs h"
  using assms by (auto simp: assign_def split: if_splits)

lemma cancel_present:
  "p \<in> set (projects (devs h d)) \<Longrightarrow>
   cancel_appointment d p h =
     (Inr (), print (''Project '' @ title (projs h p) @ '' has been removed from developer ''
                       @ full_name (devs h d))
                (set_projects d (remove1 p (projects (devs h d))) h))"
  by (simp add: cancel_appointment_def)

lemma cancel_absent:
  "p \<notin> set (projects (devs h d)) \<Longrightarrow> cancel_appointment d p h = (Inr (), h)"
  by (simp add: cancel_appointment_def)

lemma cancel_never_raises: "fst (cancel_appointment d p h) = Inr ()"
  by (simp add: cancel_appointment_def)

lemma cancel_projs: "projs (snd (cancel_appointment d p h)) = projs h"
  by (simp add: cancel_appointment_def)

lemma cancel_projects:
  "projects (devs (snd (cancel_appointment d p h)) d) = remove1 p (projects (devs h d))"
  by (simp add: cancel_appointment_def remove1_idem)

lemma remove1_append_fresh: "p \<notin> set xs \<Longrightarrow> remove1 p (xs @ [p]) = xs"
  by (induction xs) auto

text \<open>Evaluation of the scenarios.\<close>

lemma alice_simps [simp]:
  "projects (devs alice 0) = []" "full_name (devs alice 0) = ''Alice''"
  "proj_count alice = 0" "stdout alice = []"
  by (simp_all add: alice_def Developer_init_def empty_heap_def Let_def)

lemma alice_website_simps [simp]:
  "projects (devs alice_website 0) = []" "full_name (devs alice_website 0) = ''Alice''"
  "title (projs alice_website 0) = ''Website''" "developers (projs alice_website 0) = []"
  "limit (projs alice_website 0) = 2" "proj_count alice_website = 1"
  "stdout alice_website = []"
  by (simp_all add: alice_website_def Project_init_def Let_def)

text \<open>
  C1. After a successful \<open>D.assign(P)\<close> the title of \<open>P\<close> is among
  \<open>D.get_assigned_projects()\<close>; a second \<open>D.assign(P)\<close> raises the \<open>ValueError\<close> for a
  project that already exists, and the length of \<open>D\<close>'s project list (indeed the whole
  store) is as before the second call.
\<close>

theorem assign_then_assign_again:
  assumes "assign d p h = (Inr (), h1)"
  shows "title (projs h1 p) \<in> set (get_assigned_projects d h1)
       \<and> fst (assign d p h1) = Inl (ValueError (Project_Already_Exists (title (projs h1 p))))
       \<and> length (projects (devs (snd (assign d p h1)) d)) = length (projects (devs h1 d))
       \<and> snd (assign d p h1) = h1"
proof -
  from assms have mem: "p \<in> set (projects (devs h1 d))"
    by (simp add: assign_projects(1))
  then have "title (projs h1 p) \<in> set (get_assigned_projects d h1)"
    by (simp add: get_assigned_projects_def)
  with mem show ?thesis
    by (simp add: assign_present)
qed

theorem assign_then_assign_again_witness:
  "assign 0 0 alice_website = (Inr (), snd (assign 0 0 alice_website))
   \<and> ''Website'' \<in> set (get_assigned_projects 0 (snd (assign 0 0 alice_website)))
   \<and> fst (assign 0 0 (snd (assign 0 0 alice_website)))
       = Inl (ValueError (Project_Already_Exists ''Website''))
   \<and> length (projects (devs (snd (assign 0 0 (snd (assign 0 0 alice_website)))) 0)) = 1"
proof -
  have ok: "assign 0 0 alice_website = (Inr (), snd (assign 0 0 alice_website))"
    by (simp add: assign_def)
  have "title (projs (snd (assign 0 0 alice_website)) 0) = ''Website''"
    and "length (projects (devs (snd (assign 0 0 alice_website)) 0)) = 1"
    by (simp_all add: assign_def)
  with ok assign_then_assign_again [OF ok] show ?thesis
    by simp
qed

lemma two_websites_simps [simp]:
  "projects (devs two_websites 0) = [0]" "full_name (devs two_websites 0) = ''Alice''"
  "title (projs two_websites 0) = ''Website''" "title (projs two_websites (Suc 0)) = ''Website''"
  by (simp_all add: two_websites_def Project_init_def Let_def assign_def)

lemma add_developer_eq:
  "add_developer p d h =
     (Inr (), set_developers p (developers (projs h p) @ [d])
                (if p \<in> set (projects (devs h d))
                 then print (''Developer '' @ full_name (devs h d) @ '' exists'') h
                 else snd (assign d p h)))"
  by (simp add: add_developer_def assign_def Let_def)

lemma add_developer_developers:
  "developers (projs (snd (add_developer p d h)) p) = developers (projs h p) @ [d]"
  by (simp add: add_developer_eq assign_def)

lemma add_developer_projects:
  "projects (devs (snd (add_developer p d h)) d) =
     (if p \<in> set (projects (devs h d)) then projects (devs h d) else projects (devs h d) @ [p])"
  by (simp add: add_developer_eq assign_def)

text \<open>
  C5. After a successful \<open>D.assign(P)\<close>, \<open>D.cancel_appointment(P)\<close> returns without an
  error and leaves \<open>D\<close>'s project list without \<open>P\<close>, as it was before the assignment. The
  title of \<open>P\<close> is then in \<open>D.get_assigned_projects()\<close> exactly when another project of
  the list carries the same title; titles are not kept unique by the code.
\<close>

theorem assign_then_cancel:
  assumes "assign d p h = (Inr (), h1)" and "cancel_appointment d p h1 = (r, h2)"
  shows "r = Inr ()
       \<and> p \<notin> set (projects (devs h2 d))
       \<and> projects (devs h2 d) = projects (devs h d)
       \<and> (title (projs h2 p) \<in> set (get_assigned_projects d h2)
            \<longleftrightarrow> (\<exists>q \<in> set (projects (devs h d)). title (projs h q) = title (projs h p)))"
proof -
  have fresh: "p \<notin> set (projects (devs h d))"
    and after: "projects (devs h1 d) = projects (devs h d) @ [p]"
    and same: "projs h1 = projs h"
    using assms(1) by (simp_all add: assign_projects)
  have r: "r = Inr ()"
    using assms(2) cancel_never_raises [of d p h1] by simp
  have h2: "h2 = snd (cancel_appointment d p h1)"
    using assms(2) by simp
  have list: "projects (devs h2 d) = projects (devs h d)"
    unfolding h2 by (simp add: cancel_projects after remove1_append_fresh fresh)
  have projs: "projs h2 = projs h"
    unfolding h2 by (simp add: cancel_projs same)
  have "title (projs h2 p) \<in> set (get_assigned_projects d h2)
      \<longleftrightarrow> (\<exists>q \<in> set (projects (devs h d)). title (projs h p) = title (projs h q))"
    by (auto simp: get_assigned_projects_def list projs)
  then have "title (projs h2 p) \<in> set (get_assigned_projects d h2)
      \<longleftrightarrow> (\<exists>q \<in> set (projects (devs h d)). title (projs h q) = title (projs h p))"
    by metis
  with r list fresh show ?thesis by simp
qed

theorem assign_then_cancel_witness:
  "assign 0 0 alice_website = (Inr (), snd (assign 0 0 alice_website))
   \<and> fst (cancel_appointment 0 0 (snd (assign 0 0 alice_website))) = Inr ()
   \<and> projects (devs (snd (cancel_appointment 0 0 (snd (assign 0 0 alice_website)))) 0) = []
   \<and> ''Website'' \<notin> set (get_assigned_projects 0
        (snd (cancel_appointment 0 0 (snd (assign 0 0 alice_website)))))"
proof -
  have ok: "assign 0 0 alice_website = (Inr (), snd (assign 0 0 alice_website))"
    by (simp add: assign_def)
  have c: "cancel_appointment 0 0 (snd (assign 0 0 alice_website))
      = (fst (cancel_appointment 0 0 (snd (assign 0 0 alice_website))),
         snd (cancel_appointment 0 0 (snd (assign 0 0 alice_website))))"
    by simp
  have t: "title (projs (snd (cancel_appointment 0 0 (snd (assign 0 0 alice_website)))) 0)
      = ''Website''"
    by (simp add: cancel_projs assign_def)
  from assign_then_cancel [OF ok c] ok t show ?thesis
    by simp
qed

text \<open>
  The claim as it is stated fails when two projects share a title: Alice is on project 0,
  \<open>Website\<close>; she is assigned to project 1, also \<open>Website\<close>, and the appointment is
  cancelled; the title of project 1 is still among her titles.
\<close>

theorem assign_then_cancel_counterexample:
  "fst (assign 0 1 two_websites) = Inr ()
   \<and> fst (cancel_appointment 0 1 (snd (assign 0 1 two_websites))) = Inr ()
   \<and> title (projs (snd (cancel_appointment 0 1 (snd (assign 0 1 two_websites)))) 1)
       \<in> set (get_assigned_projects 0
                 (snd (cancel_appointment 0 1 (snd (assign 0 1 two_websites)))))"
  by (simp add: assign_def cancel_appointment_def get_assigned_projects_def)

lemma remove_developer_absent:
  "d \<notin> set (developers (projs h p)) \<Longrightarrow>
   remove_developer p d h = (Inl (ValueError Remove_Not_In_List), snd (cancel_appointment d p h))"
  by (simp add: remove_developer_def cancel_appointment_def)

lemma remove_developer_present:
  "d \<in> set (developers (projs h p)) \<Longrightarrow>
   remove_developer p d h =
     (Inr (), set_developers p (remove1 d (developers (projs h p)))
                (snd (cancel_appointment d p h)))"
  by (simp add: remove_developer_def cancel_appointment_def)

text \<open>
  C6. The two removals treat absence differently. \<open>Developer.cancel_appointment\<close> of a
  project that is not in the developer's list returns normally and changes nothing, not
  even the output; \<open>Project.remove_developer\<close> of a developer who is not in the roster
  raises the \<open>ValueError\<close> of \<open>list.remove\<close>.
\<close>

theorem absence_is_handled_asymmetrically:
  "(p \<notin> set (projects (devs h d)) \<longrightarrow> cancel_appointment d p h = (Inr (), h))
   \<and> (d \<notin> set (developers (projs h p))
        \<longrightarrow> fst (remove_developer p d h) = Inl (ValueError Remove_Not_In_List))"
  by (simp add: cancel_absent remove_developer_absent)

theorem absence_is_handled_asymmetrically_witness:
  "0 \<notin> set (projects (devs alice_website 0))
   \<and> cancel_appointment 0 0 alice_website = (Inr (), alice_website)
   \<and> 0 \<notin> set (developers (projs alice_website 0))
   \<and> fst (remove_developer 0 0 alice_website) = Inl (ValueError Remove_Not_In_List)"
  using absence_is_handled_asymmetrically [of 0 alice_website 0] by simp

text \<open>
  C9. \<open>Project.remove_developer\<close> is not atomic. When the developer is not in the roster
  while the project is in the developer's list, the call raises the \<open>ValueError\<close> of
  \<open>list.remove\<close> after \<open>cancel_appointment\<close> has taken the project out of the
  developer's list and printed its message: the store at the exception differs from the
  store before the call.
\<close>

theorem remove_developer_not_atomic:
  assumes "d \<notin> set (developers (projs h p))" and "p \<in> set (projects (devs h d))"
  shows "fst (remove_developer p d h) = Inl (ValueError Remove_Not_In_List)
       \<and> projects (devs (snd (remove_developer p d h)) d) = remove1 p (projects (devs h d))
       \<and> length (projects (devs (snd (remove_developer p d h)) d))
           < length (projects (devs h d))
       \<and> stdout (snd (remove_developer p d h))
           = stdout h @ [''Project '' @ title (projs h p) @ '' has been removed from developer ''
                          @ full_name (devs h d)]
       \<and> snd (remove_developer p d h) \<noteq> h"
proof -
  let ?h' = "snd (remove_developer p d h)"
  have h': "?h' = snd (cancel_appointment d p h)"
    using assms(1) by (simp add: remove_developer_absent)
  have list: "projects (devs ?h' d) = remove1 p (projects (devs h d))"
    unfolding h' by (rule cancel_projects)
  have len: "length (projects (devs ?h' d)) < length (projects (devs h d))"
    unfolding list using assms(2) length_pos_if_in_set [of p "projects (devs h d)"]
    by (simp add: length_remove1)
  have out: "stdout ?h' = stdout h @ [''Project '' @ title (projs h p)
      @ '' has been removed from developer '' @ full_name (devs h d)]"
    unfolding h' using assms(2) by (simp add: cancel_present)
  from out have "?h' \<noteq> h" by auto
  with assms(1) list len out show ?thesis
    by (simp add: remove_developer_absent)
qed

theorem remove_developer_not_atomic_witness:
  "0 \<notin> set (developers (projs two_websites 0)) \<and> 0 \<in> set (projects (devs two_websites 0))
   \<and> fst (remove_developer 0 0 two_websites) = Inl (ValueError Remove_Not_In_List)
   \<and> projects (devs (snd (remove_developer 0 0 two_websites)) 0) = []
   \<and> snd (remove_developer 0 0 two_websites) \<noteq> two_websites"
proof -
  have a: "0 \<notin> set (developers (projs two_websites 0))"
    by (simp add: two_websites_def Project_init_def Let_def assign_def)
  have b: "0 \<in> set (projects (devs two_websites 0))"
    by simp
  from remove_developer_not_atomic [OF a b] a b show ?thesis
    by simp
qed

text \<open>
  C2. \<open>Project.add_developer\<close> never raises and appends the developer to the roster
  whether \<open>assign\<close> succeeded or raised. Two calls with the same developer therefore add
  the developer twice to the roster, while the developer's own list gains the project
  once at most. For Alice and the new project \<open>Website\<close> with limit 2 the roster has
  length 2 and Alice's list length 1, and the second call printed that she exists.
\<close>

theorem add_developer_appends_unconditionally:
  "fst (add_developer p d h) = Inr ()
   \<and> developers (projs (snd (add_developer p d h)) p) = developers (projs h p) @ [d]
   \<and> developers (projs (snd (add_developer p d (snd (add_developer p d h)))) p)
       = developers (projs h p) @ [d, d]
   \<and> projects (devs (snd (add_developer p d (snd (add_developer p d h)))) d)
       = (if p \<in> set (projects (devs h d)) then projects (devs h d)
          else projects (devs h d) @ [p])
   \<and> length (developers (projs (snd (add_developer 0 0 (snd (add_developer 0 0 alice_website)))) 0))
       = 2
   \<and> length (projects (devs (snd (add_developer 0 0 (snd (add_developer 0 0 alice_website)))) 0))
       = 1
   \<and> last (stdout (snd (add_developer 0 0 (snd (add_developer 0 0 alice_website)))))
       = ''Developer Alice exists''"
proof -
  have 1: "fst (add_developer p d h) = Inr ()"
    by (simp add: add_developer_eq)
  have 2: "developers (projs (snd (add_developer p d h)) p) = developers (projs h p) @ [d]"
    for h
    by (rule add_developer_developers)
  have 3: "developers (projs (snd (add_developer p d (snd (add_developer p d h)))) p)
      = developers (projs h p) @ [d, d]"
    by (simp add: 2)
  have 4: "projects (devs (snd (add_developer p d (snd (add_developer p d h)))) d)
      = (if p \<in> set (projects (devs h d)) then projects (devs h d)
         else projects (devs h d) @ [p])" for p d h
    by (simp add: add_developer_projects)
  have 5: "last (stdout (snd (add_developer 0 0 (snd (add_developer 0 0 alice_website)))))
      = ''Developer Alice exists''"
    by (simp add: add_developer_eq assign_def set_developers_def)
  have 6: "length (developers (projs (snd (add_developer p d (snd (add_developer p d h)))) p))
      = length (developers (projs h p)) + 2" for p d h
    by (simp add: add_developer_developers)
  show ?thesis
    using 1 2 3 4 [of p d h] 4 [of 0 0 alice_website] 5 6 [of 0 0 alice_website]
    by simp
qed

theorem add_developer_appends_unconditionally_witness:
  "0 \<in> set (projects (devs two_websites 0))
   \<and> fst (assign 0 0 two_websites) = Inl (ValueError (Project_Already_Exists ''Website''))
   \<and> fst (add_developer 0 0 two_websites) = Inr ()
   \<and> developers (projs (snd (add_developer 0 0 two_websites)) 0) = [0]
   \<and> projects (devs (snd (add_developer 0 0 (snd (add_developer 0 0 two_websites)))) 0) = [0]"
proof -
  have "developers (projs two_websites 0) = []"
    by (simp add: two_websites_def Project_init_def Let_def assign_def)
  then show ?thesis
    using add_developer_appends_unconditionally [of 0 0 two_websites]
    by (simp add: assign_present)
qed

lemma managed_simps [simp]:
  "assignments (devs managed 0) = [0, Suc 0]"
  "description (asgs managed 0) = ''Fix bug''"
  "description (asgs managed (Suc 0)) = ''Write docs''"
  "pm_full_name (pms managed 0) = ''Bob''"
  "title (projs managed (pm_project (pms managed 0))) = ''Website''"
  by (simp_all add: managed_def ProjectManager_init_def new_assignment_def Let_def
        Assignment_init_def alice_website_def Project_init_def alice_def Developer_init_def
        empty_heap_def)

lemma join_single_spaces:
  "join '' '' (x # y # ys) = x @ '' '' @ join '' '' (y # ys)"
  by simp



lemma digit_value_simps [simp]:
  "digit_value CHR ''0'' = 0" "digit_value CHR ''1'' = 1" "digit_value CHR ''2'' = 2"
  "digit_value CHR ''3'' = 3" "digit_value CHR ''4'' = 4" "digit_value CHR ''5'' = 5"
  "digit_value CHR ''6'' = 6" "digit_value CHR ''7'' = 7" "digit_value CHR ''8'' = 8"
  "digit_value CHR ''9'' = 9"
  by (simp_all add: digit_value_def)


lemma make_datetime_error:
  "make_datetime mo da ye = Inl e \<Longrightarrow> e = ValueError Time_Data_Mismatch"
  by (auto simp: make_datetime_def split: option.splits if_splits)

lemma strptime_error: "strptime s = Inl e \<Longrightarrow> e = ValueError Time_Data_Mismatch"
  by (auto simp: strptime_def split: list.splits dest: make_datetime_error)


lemma tasks_before_error:
  "tasks_before items t = Inl e \<Longrightarrow> e = ValueError Time_Data_Mismatch"
  by (induction items t rule: tasks_before.induct)
     (auto split: sum.splits dest: strptime_error)


lemma tasks_before_bad_key:
  "\<not> list_all (\<lambda>(k, v). \<not> isl (strptime k)) items \<Longrightarrow>
   tasks_before items t = Inl (ValueError Time_Data_Mismatch)"
proof (induction items)
  case Nil
  then show ?case by simp
next
  case (Cons item items)
  obtain k v where item: "item = (k, v)"
    by (cases item)
  show ?case
  proof (cases "strptime k")
    case (Inl e)
    then show ?thesis
      using strptime_error [OF Inl] by (simp add: item)
  next
    case (Inr kd)
    with Cons item show ?thesis
      by simp
  qed
qed

text \<open>A key that is not a date in the format makes the call raise, whatever the date.\<close>

lemma get_tasks_to_date_bad_key:
  "\<not> list_all (\<lambda>(k, v). \<not> isl (strptime k)) (received_tasks a) \<Longrightarrow>
   get_tasks_to_date a date = Inl (ValueError Time_Data_Mismatch)"
  by (cases "strptime date")
     (auto simp: get_tasks_to_date_def tasks_before_bad_key dest: strptime_error)



end
